theory Spec2Isabelle
  imports Main "HOL-Library.AList"
begin

section \<open>Data model of \<open>pyxdi/core.py\<close>\<close>

text \<open>
  Python objects are known by their identity only: \<open>PyNone\<close> is the object \<open>None\<close>, and
  \<open>Ref a\<close> is the object at address \<open>a\<close>, so that the Python test \<open>x is y\<close> is equality
  of \<open>pyval\<close>.
\<close>

datatype pyval = PyNone | Ref nat

text \<open>
  Interface keys (\<open>t.Type[t.Any]\<close>). \<open>Empty\<close> is \<open>inspect._empty\<close>, the annotation of a
  parameter that has none; \<open>NoneKey\<close> and \<open>NoneTypeKey\<close> are \<open>None\<close> and \<open>NoneType\<close>.
\<close>

datatype iface = Empty | NoneKey | NoneTypeKey | TypeKey nat

text \<open>A scope is a Python string; \<open>Scope\<close> lists \<open>t.get_args(Scope)\<close>.\<close>

type_synonym scope = string

definition Scope :: "scope list" where
  "Scope = [''transient'', ''singleton'', ''request'']"

definition ALLOWED_SCOPES :: "(scope \<times> scope list) list" where
  "ALLOWED_SCOPES =
     [(''singleton'', [''singleton'']),
      (''request'', [''request'', ''singleton'']),
      (''transient'', [''transient'', ''singleton'', ''request''])]"

text \<open>
  Every \<open>raise\<close> of the module is one constructor; the comment gives the Python class and
  the function that raises it. \<open>Raised k\<close> is an exception of the user's code (a factory,
  a teardown or the body of a \<open>with\<close> block), \<open>RecursionError\<close> is the interpreter running
  out of stack in a cyclic resolution.
\<close>

datatype error =
    ProviderAlreadyBound iface    \<comment> \<open>LookupError, \<open>register_provider\<close>\<close>
  | ProviderNotRegistered iface   \<comment> \<open>LookupError, \<open>unregister_provider\<close> and \<open>override\<close>\<close>
  | BindingDoesNotExist iface     \<comment> \<open>LookupError, \<open>get_provider\<close>\<close>
  | ContextNotStarted             \<comment> \<open>LookupError, \<open>_get_request_context\<close>\<close>
  | InvalidScope                  \<comment> \<open>ValueError, \<open>_validate_provider_scope\<close>\<close>
  | ScopeMismatch                 \<comment> \<open>ValueError, \<open>_validate_provider_match_scopes\<close>\<close>
  | TransientResource             \<comment> \<open>TypeError, \<open>_validate_provider_type\<close>\<close>
  | InvalidProviderType           \<comment> \<open>TypeError, \<open>_validate_provider_type\<close>\<close>
  | MissingAnnotation string      \<comment> \<open>TypeError, \<open>_validate_provider_match_scopes\<close>\<close>
  | ResourceNotStarted            \<comment> \<open>TypeError, \<open>_validate_instance_is_not_resource\<close>\<close>
  | InvalidMode                   \<comment> \<open>TypeError, \<open>create_instance\<close> on a coroutine function\<close>
  | NotCallable                   \<comment> \<open>TypeError of Python itself: an object that cannot be called, inspected or entered\<close>
  | KeyError iface                \<comment> \<open>KeyError of \<open>del d[k]\<close> on a missing key\<close>
  | Raised nat
  | RecursionError


datatype param_kind =
  POSITIONAL_ONLY | POSITIONAL_OR_KEYWORD | VAR_POSITIONAL | KEYWORD_ONLY | VAR_KEYWORD

record parameter =
  name :: string
  annotation :: iface
  kind :: param_kind

text \<open>
  The code of a factory is outside the container. It is modelled by its effect on the
  rest of the program's state, the world \<open>'w\<close>: a call takes the positional and the
  keyword arguments and returns a value or raises. A generator function, once wrapped by
  \<open>contextlib.contextmanager\<close> and entered, runs up to its \<open>yield\<close> and gives the yielded
  value together with its exit callback. An exit callback receives the exception that is
  pending in the exit stack (if any) and returns the one that is pending after it.
  Factories do not call back into the container.
\<close>

type_synonym 'w teardown = "error option \<Rightarrow> 'w \<Rightarrow> error option \<times> 'w"

type_synonym 'w call =
  "pyval list \<Rightarrow> (string \<times> pyval) list \<Rightarrow> 'w \<Rightarrow> (error + pyval) \<times> 'w"

type_synonym 'w enter =
  "pyval list \<Rightarrow> (string \<times> pyval) list \<Rightarrow> 'w \<Rightarrow> (error + pyval \<times> 'w teardown) \<times> 'w"

text \<open>
  What \<open>Provider.obj\<close> can be, as the predicates of \<open>inspect\<close> tell it apart, with its
  signature (\<open>get_signature(obj).parameters\<close>) and its behaviour.
\<close>

datatype 'w pyobj =
    Function "parameter list" "'w call"
  | Class "parameter list" "'w call"
  | CoroutineFunction "parameter list" "'w call"
  | GeneratorFunction "parameter list" "'w enter"
  | AsyncGeneratorFunction "parameter list" "'w enter"
  | CallableObject "parameter list" "'w call"
  | NonCallable

fun inspect_isclass :: "'w pyobj \<Rightarrow> bool" where
  "inspect_isclass (Class _ _) = True"
| "inspect_isclass _ = False"

text \<open>\<open>inspect.isfunction(obj) or inspect.ismethod(obj)\<close>\<close>

fun inspect_isfunction :: "'w pyobj \<Rightarrow> bool" where
  "inspect_isfunction (Function _ _) = True"
| "inspect_isfunction (CoroutineFunction _ _) = True"
| "inspect_isfunction (GeneratorFunction _ _) = True"
| "inspect_isfunction (AsyncGeneratorFunction _ _) = True"
| "inspect_isfunction _ = False"

fun inspect_iscoroutinefunction :: "'w pyobj \<Rightarrow> bool" where
  "inspect_iscoroutinefunction (CoroutineFunction _ _) = True"
| "inspect_iscoroutinefunction _ = False"

fun inspect_isgeneratorfunction :: "'w pyobj \<Rightarrow> bool" where
  "inspect_isgeneratorfunction (GeneratorFunction _ _) = True"
| "inspect_isgeneratorfunction _ = False"

fun inspect_isasyncgenfunction :: "'w pyobj \<Rightarrow> bool" where
  "inspect_isasyncgenfunction (AsyncGeneratorFunction _ _) = True"
| "inspect_isasyncgenfunction _ = False"

fun get_signature :: "'w pyobj \<Rightarrow> error + parameter list" where
  "get_signature (Function ps _) = Inr ps"
| "get_signature (Class ps _) = Inr ps"
| "get_signature (CoroutineFunction ps _) = Inr ps"
| "get_signature (GeneratorFunction ps _) = Inr ps"
| "get_signature (AsyncGeneratorFunction ps _) = Inr ps"
| "get_signature (CallableObject ps _) = Inr ps"
| "get_signature NonCallable = Inl NotCallable"

record 'w provider =
  obj :: "'w pyobj"
  scope :: scope

definition parameters :: "'w provider \<Rightarrow> error + parameter list" where
  "parameters p = get_signature (obj p)"

definition is_class :: "'w provider \<Rightarrow> bool" where
  "is_class p = inspect_isclass (obj p)"

definition is_coroutine :: "'w provider \<Rightarrow> bool" where
  "is_coroutine p = inspect_iscoroutinefunction (obj p)"

definition is_resource :: "'w provider \<Rightarrow> bool" where
  "is_resource p = inspect_isgeneratorfunction (obj p)"

definition is_async_resource :: "'w provider \<Rightarrow> bool" where
  "is_async_resource p = inspect_isasyncgenfunction (obj p)"

definition is_function :: "'w provider \<Rightarrow> bool" where
  "is_function p =
     (inspect_isfunction (obj p) \<and> \<not> (is_resource p \<or> is_async_resource p))"

text \<open>
  \<open>ScopedContext\<close>: the cache \<open>_instances\<close> and the two exit stacks, each in push order
  (the last element is the top, as in the deque of \<open>contextlib.ExitStack\<close>).
\<close>

record 'w scoped_context =
  instances :: "iface \<rightharpoonup> pyval"
  stack :: "'w teardown list"
  async_stack :: "'w teardown list"

definition new_context :: "'w scoped_context" where
  "new_context = \<lparr>instances = Map.empty, stack = [], async_stack = []\<rparr>"

text \<open>
  \<open>PyxDI\<close>. The registry \<open>_providers\<close> is a Python dict, which keeps insertion order: an
  association list. \<open>RequestContext\<close> objects are shared between the context variable,
  its tokens and the generator that created them, so they live in a store
  \<open>request_contexts\<close>, addressed by number; \<open>next_context\<close> is the next free address and
  \<open>request_context_var\<close> holds the address of the current one (\<open>None\<close> is the default of
  the \<open>ContextVar\<close>). \<open>world\<close> is the state of the program outside the container.
\<close>

record 'w container =
  providers :: "(iface \<times> 'w provider) list"
  singleton_context :: "'w scoped_context"
  request_contexts :: "nat \<Rightarrow> 'w scoped_context"
  next_context :: nat
  request_context_var :: "nat option"
  override_instances :: "iface \<rightharpoonup> pyval"
  world :: 'w

definition PyxDI :: "'w \<Rightarrow> 'w container" where
  "PyxDI w =
     \<lparr>providers = [], singleton_context = new_context,
      request_contexts = (\<lambda>_. new_context), next_context = 0,
      request_context_var = None, override_instances = Map.empty, world = w\<rparr>"

section \<open>Provider registry\<close>

definition has_provider :: "iface \<Rightarrow> 'w container \<Rightarrow> bool" where
  "has_provider interface st = (map_of (providers st) interface \<noteq> None)"

definition get_provider :: "iface \<Rightarrow> 'w container \<Rightarrow> error + 'w provider" where
  "get_provider interface st =
     (case map_of (providers st) interface of
        None \<Rightarrow> Inl (BindingDoesNotExist interface)
      | Some p \<Rightarrow> Inr p)"

definition validate_provider_scope :: "'w provider \<Rightarrow> error + unit" where
  "validate_provider_scope p =
     (if scope p \<notin> set Scope then Inl InvalidScope else Inr ())"

definition validate_provider_type :: "'w provider \<Rightarrow> error + unit" where
  "validate_provider_type p =
     (if is_function p \<or> is_class p then Inr ()
      else if is_resource p \<or> is_async_resource p then
        (if scope p = ''transient'' then Inl TransientResource else Inr ())
      else Inl InvalidProviderType)"

text \<open>The first loop of \<open>_validate_provider_match_scopes\<close>: it collects \<open>related_providers\<close>.\<close>

fun related_providers :: "parameter list \<Rightarrow> 'w container \<Rightarrow> error + 'w provider list" where
  "related_providers [] st = Inr []"
| "related_providers (prm # ps) st =
     (if annotation prm = Empty then Inl (MissingAnnotation (name prm))
      else case get_provider (annotation prm) st of
             Inl e \<Rightarrow> Inl e
           | Inr sub_provider \<Rightarrow>
               (case related_providers ps st of
                  Inl e \<Rightarrow> Inl e
                | Inr rs \<Rightarrow> Inr (sub_provider # rs)))"

text \<open>\<open>ALLOWED_SCOPES.get(right_scope) or []\<close>\<close>

definition allowed_scopes :: "scope \<Rightarrow> scope list" where
  "allowed_scopes right_scope =
     (case map_of ALLOWED_SCOPES right_scope of None \<Rightarrow> [] | Some l \<Rightarrow> l)"

text \<open>The second loop: it compares each related provider's scope with the provider's.\<close>

fun match_scopes :: "'w provider \<Rightarrow> 'w provider list \<Rightarrow> error + unit" where
  "match_scopes p [] = Inr ()"
| "match_scopes p (related_provider # rs) =
     (if scope related_provider \<notin> set (allowed_scopes (scope p)) then Inl ScopeMismatch
      else match_scopes p rs)"

definition validate_provider_match_scopes ::
  "iface \<Rightarrow> 'w provider \<Rightarrow> 'w container \<Rightarrow> error + unit" where
  "validate_provider_match_scopes interface p st =
     (case parameters p of
        Inl e \<Rightarrow> Inl e
      | Inr ps \<Rightarrow>
          (case related_providers ps st of
             Inl e \<Rightarrow> Inl e
           | Inr rs \<Rightarrow> match_scopes p rs))"

text \<open>
  \<open>register_provider\<close>. \<open>event\<close> is the class that \<open>type(f"Event{uuid.uuid4().hex}", (), {})\<close>
  creates; it is used only for a resource registered under \<open>None\<close> or \<open>NoneType\<close>. The
  result is the provider or the exception, and the container after the call.
\<close>

definition register_provider ::
  "iface \<Rightarrow> iface \<Rightarrow> 'w pyobj \<Rightarrow> scope \<Rightarrow> bool \<Rightarrow> 'w container
     \<Rightarrow> (error + 'w provider) \<times> 'w container" where
  "register_provider event interface0 ob sc override st =
     (let provider = \<lparr>obj = ob, scope = sc\<rparr>;
          interface =
            (if (is_resource provider \<or> is_async_resource provider)
                \<and> (interface0 = NoneTypeKey \<or> interface0 = NoneKey)
             then event else interface0)
      in if has_provider interface st then
           (if override then
              (Inr provider,
               st\<lparr>providers := AList.update interface provider (providers st)\<rparr>)
            else (Inl (ProviderAlreadyBound interface), st))
         else
           (case validate_provider_scope provider of
              Inl e \<Rightarrow> (Inl e, st)
            | Inr _ \<Rightarrow>
                (case validate_provider_type provider of
                   Inl e \<Rightarrow> (Inl e, st)
                 | Inr _ \<Rightarrow>
                     (case validate_provider_match_scopes interface provider st of
                        Inl e \<Rightarrow> (Inl e, st)
                      | Inr _ \<Rightarrow>
                          (Inr provider,
                           st\<lparr>providers :=
                                AList.update interface provider (providers st)\<rparr>)))))"

text \<open>
  \<open>unregister_provider\<close> needs the scoped contexts; it follows them below.
\<close>

section \<open>Scoped contexts\<close>

text \<open>
  A reference to a \<open>ScopedContext\<close> object: the container's singleton context, or a
  request context of the store.
\<close>

datatype ctx_ref = SingletonRef | RequestRef nat

fun read_context :: "ctx_ref \<Rightarrow> 'w container \<Rightarrow> 'w scoped_context" where
  "read_context SingletonRef st = singleton_context st"
| "read_context (RequestRef a) st = request_contexts st a"

fun write_context :: "ctx_ref \<Rightarrow> 'w scoped_context \<Rightarrow> 'w container \<Rightarrow> 'w container" where
  "write_context SingletonRef c st = st\<lparr>singleton_context := c\<rparr>"
| "write_context (RequestRef a) c st = st\<lparr>request_contexts := (request_contexts st)(a := c)\<rparr>"

definition get_request_context :: "'w container \<Rightarrow> error + ctx_ref" where
  "get_request_context st =
     (case request_context_var st of
        None \<Rightarrow> Inl ContextNotStarted
      | Some a \<Rightarrow> Inr (RequestRef a))"

definition get_scoped_context :: "scope \<Rightarrow> 'w container \<Rightarrow> error + ctx_ref option" where
  "get_scoped_context sc st =
     (if sc = ''singleton'' then Inr (Some SingletonRef)
      else if sc = ''request'' then
        (case get_request_context st of
           Inl e \<Rightarrow> Inl e
         | Inr request_context \<Rightarrow> Inr (Some request_context))
      else Inr None)"



text \<open>
  \<open>contextlib.ExitStack.enter_context\<close> on the stack \<open>_stack\<close> of the context \<open>ref\<close>:
  the exit callback is pushed once \<open>__enter__\<close> has returned.
\<close>

definition push_exit :: "ctx_ref \<Rightarrow> 'w teardown \<Rightarrow> 'w container \<Rightarrow> 'w container" where
  "push_exit ref td st =
     write_context ref ((read_context ref st)\<lparr>stack := stack (read_context ref st) @ [td]\<rparr>) st"

text \<open>
  \<open>contextlib.contextmanager(provider.obj)(*args, **kwargs)\<close>, entered. Only a generator
  function has a \<open>yield\<close> to run to.
\<close>

fun enter_context :: "'w pyobj \<Rightarrow> 'w enter" where
  "enter_context (GeneratorFunction _ f) args kwargs w = f args kwargs w"
| "enter_context (AsyncGeneratorFunction _ f) args kwargs w = (Inl NotCallable, w)"
| "enter_context _ args kwargs w = (Inl NotCallable, w)"

text \<open>\<open>provider.obj(*args, **kwargs)\<close>\<close>

fun call_obj :: "'w pyobj \<Rightarrow> 'w call" where
  "call_obj (Function _ f) args kwargs w = f args kwargs w"
| "call_obj (Class _ f) args kwargs w = f args kwargs w"
| "call_obj (CallableObject _ f) args kwargs w = f args kwargs w"
| "call_obj (CoroutineFunction _ f) args kwargs w = f args kwargs w"
| "call_obj _ args kwargs w = (Inl NotCallable, w)"

definition validate_instance_is_not_resource :: "'w provider \<Rightarrow> error + unit" where
  "validate_instance_is_not_resource p =
     (if is_resource p \<or> is_async_resource p then Inl ResourceNotStarted else Inr ())"

text \<open>\<open>self._instances.get(interface)\<close>: a missing key reads as \<open>None\<close>.\<close>

definition dict_get :: "(iface \<rightharpoonup> pyval) \<Rightarrow> iface \<Rightarrow> pyval" where
  "dict_get d k = (case d k of None \<Rightarrow> PyNone | Some v \<Rightarrow> v)"

definition set_instance :: "ctx_ref \<Rightarrow> iface \<Rightarrow> pyval \<Rightarrow> 'w container \<Rightarrow> 'w container" where
  "set_instance ref interface v st =
     write_context ref
       ((read_context ref st)\<lparr>instances := (instances (read_context ref st))(interface \<mapsto> v)\<rparr>)
       st"

section \<open>Instance resolution\<close>

text \<open>
  \<open>get_instance\<close>, \<open>ScopedContext.get\<close>, \<open>create_resource\<close>, \<open>create_instance\<close> and
  \<open>_get_provider_arguments\<close> call each other. The first argument bounds the depth of the
  nested \<open>get_instance\<close> calls, as the interpreter's stack does: at depth 0 the call
  raises \<open>RecursionError\<close>. \<open>_get_provider_arguments\<close> carries the \<open>args\<close> and \<open>kwargs\<close>
  built so far.
\<close>

function
  get_instance :: "nat \<Rightarrow> iface \<Rightarrow> 'w container \<Rightarrow> (error + pyval) \<times> 'w container"
and ScopedContext_get ::
  "nat \<Rightarrow> ctx_ref \<Rightarrow> iface \<Rightarrow> 'w container \<Rightarrow> (error + pyval) \<times> 'w container"
and create_resource ::
  "nat \<Rightarrow> 'w provider \<Rightarrow> ctx_ref \<Rightarrow> 'w container \<Rightarrow> (error + pyval) \<times> 'w container"
and create_instance ::
  "nat \<Rightarrow> 'w provider \<Rightarrow> 'w container \<Rightarrow> (error + pyval) \<times> 'w container"
and get_provider_arguments ::
  "nat \<Rightarrow> parameter list \<Rightarrow> pyval list \<times> (string \<times> pyval) list \<Rightarrow> 'w container
     \<Rightarrow> (error + pyval list \<times> (string \<times> pyval) list) \<times> 'w container"
where
  "get_instance 0 interface st = (Inl RecursionError, st)"
| "get_instance (Suc n) interface st =
     (case override_instances st interface of
        Some instance \<Rightarrow> (Inr instance, st)
      | None \<Rightarrow>
          (case get_provider interface st of
             Inl e \<Rightarrow> (Inl e, st)
           | Inr provider \<Rightarrow>
               (case get_scoped_context (scope provider) st of
                  Inl e \<Rightarrow> (Inl e, st)
                | Inr (Some scoped_context) \<Rightarrow> ScopedContext_get n scoped_context interface st
                | Inr None \<Rightarrow> create_instance n provider st)))"
| "ScopedContext_get n ref interface st =
     (let instance = dict_get (instances (read_context ref st)) interface
      in if instance = PyNone then
           (case get_provider interface st of
              Inl e \<Rightarrow> (Inl e, st)
            | Inr provider \<Rightarrow>
                (case (if is_resource provider then create_resource n provider ref st
                       else create_instance n provider st) of
                   (Inl e, st1) \<Rightarrow> (Inl e, st1)
                 | (Inr instance, st1) \<Rightarrow> (Inr instance, set_instance ref interface instance st1)))
         else (Inr instance, st))"
| "create_resource n provider ref st =
     (case parameters provider of
        Inl e \<Rightarrow> (Inl e, st)
      | Inr ps \<Rightarrow>
          (case get_provider_arguments n ps ([], []) st of
             (Inl e, st1) \<Rightarrow> (Inl e, st1)
           | (Inr (args, kwargs), st1) \<Rightarrow>
               (case enter_context (obj provider) args kwargs (world st1) of
                  (Inl e, w) \<Rightarrow> (Inl e, st1\<lparr>world := w\<rparr>)
                | (Inr (v, td), w) \<Rightarrow> (Inr v, push_exit ref td (st1\<lparr>world := w\<rparr>)))))"
| "create_instance n provider st =
     (case validate_instance_is_not_resource provider of
        Inl e \<Rightarrow> (Inl e, st)
      | Inr _ \<Rightarrow>
          if is_coroutine provider then (Inl InvalidMode, st)
          else
            (case parameters provider of
               Inl e \<Rightarrow> (Inl e, st)
             | Inr ps \<Rightarrow>
                 (case get_provider_arguments n ps ([], []) st of
                    (Inl e, st1) \<Rightarrow> (Inl e, st1)
                  | (Inr (args, kwargs), st1) \<Rightarrow>
                      (case call_obj (obj provider) args kwargs (world st1) of
                         (r, w) \<Rightarrow> (r, st1\<lparr>world := w\<rparr>)))))"
| "get_provider_arguments n [] (args, kwargs) st = (Inr (args, kwargs), st)"
| "get_provider_arguments n (prm # ps) (args, kwargs) st =
     (case get_instance n (annotation prm) st of
        (Inl e, st1) \<Rightarrow> (Inl e, st1)
      | (Inr instance, st1) \<Rightarrow>
          (if kind prm = POSITIONAL_ONLY
           then get_provider_arguments n ps (args @ [instance], kwargs) st1
           else get_provider_arguments n ps
                  (args, AList.update (name prm) instance kwargs) st1))"
  by pat_completeness auto
termination
  by (relation "inv_image (less_than <*lex*> less_than <*lex*> less_than)
        (\<lambda>x. case x of
           Inl (Inl (n, _)) \<Rightarrow> (n, 0::nat, 0::nat)
         | Inl (Inr (n, _)) \<Rightarrow> (n, 3, 0)
         | Inr (Inl (n, _)) \<Rightarrow> (n, 2, 0)
         | Inr (Inr (Inl (n, _))) \<Rightarrow> (n, 2, 0)
         | Inr (Inr (Inr (n, ps, _))) \<Rightarrow> (n, 1, length ps))") auto

text \<open>
  The asynchronous path, one task at a time: an \<open>await\<close> runs the awaited call to its end,
  and \<open>run_async(f, ...)\<close> is the call \<open>f(...)\<close>. \<open>ScopedContext.aget\<close> builds a resource
  through the synchronous \<open>create_resource\<close>, as the source does.
\<close>

definition push_async_exit :: "ctx_ref \<Rightarrow> 'w teardown \<Rightarrow> 'w container \<Rightarrow> 'w container" where
  "push_async_exit ref td st =
     write_context ref
       ((read_context ref st)\<lparr>async_stack := async_stack (read_context ref st) @ [td]\<rparr>) st"

text \<open>\<open>contextlib.asynccontextmanager(provider.obj)(*args, **kwargs)\<close>, entered.\<close>

fun enter_async_context :: "'w pyobj \<Rightarrow> 'w enter" where
  "enter_async_context (AsyncGeneratorFunction _ f) args kwargs w = f args kwargs w"
| "enter_async_context _ args kwargs w = (Inl NotCallable, w)"

function
  aget_instance :: "nat \<Rightarrow> iface \<Rightarrow> 'w container \<Rightarrow> (error + pyval) \<times> 'w container"
and ScopedContext_aget ::
  "nat \<Rightarrow> ctx_ref \<Rightarrow> iface \<Rightarrow> 'w container \<Rightarrow> (error + pyval) \<times> 'w container"
and acreate_resource ::
  "nat \<Rightarrow> 'w provider \<Rightarrow> ctx_ref \<Rightarrow> 'w container \<Rightarrow> (error + pyval) \<times> 'w container"
and acreate_instance ::
  "nat \<Rightarrow> 'w provider \<Rightarrow> 'w container \<Rightarrow> (error + pyval) \<times> 'w container"
and aget_provider_arguments ::
  "nat \<Rightarrow> parameter list \<Rightarrow> pyval list \<times> (string \<times> pyval) list \<Rightarrow> 'w container
     \<Rightarrow> (error + pyval list \<times> (string \<times> pyval) list) \<times> 'w container"
where
  "aget_instance 0 interface st = (Inl RecursionError, st)"
| "aget_instance (Suc n) interface st =
     (case override_instances st interface of
        Some instance \<Rightarrow> (Inr instance, st)
      | None \<Rightarrow>
          (case get_provider interface st of
             Inl e \<Rightarrow> (Inl e, st)
           | Inr provider \<Rightarrow>
               (case get_scoped_context (scope provider) st of
                  Inl e \<Rightarrow> (Inl e, st)
                | Inr (Some scoped_context) \<Rightarrow> ScopedContext_aget n scoped_context interface st
                | Inr None \<Rightarrow> acreate_instance n provider st)))"
| "ScopedContext_aget n ref interface st =
     (let instance = dict_get (instances (read_context ref st)) interface
      in if instance = PyNone then
           (case get_provider interface st of
              Inl e \<Rightarrow> (Inl e, st)
            | Inr provider \<Rightarrow>
                (case (if is_resource provider then create_resource n provider ref st
                       else if is_async_resource provider then acreate_resource n provider ref st
                       else acreate_instance n provider st) of
                   (Inl e, st1) \<Rightarrow> (Inl e, st1)
                 | (Inr instance, st1) \<Rightarrow> (Inr instance, set_instance ref interface instance st1)))
         else (Inr instance, st))"
| "acreate_resource n provider ref st =
     (case parameters provider of
        Inl e \<Rightarrow> (Inl e, st)
      | Inr ps \<Rightarrow>
          (case aget_provider_arguments n ps ([], []) st of
             (Inl e, st1) \<Rightarrow> (Inl e, st1)
           | (Inr (args, kwargs), st1) \<Rightarrow>
               (case enter_async_context (obj provider) args kwargs (world st1) of
                  (Inl e, w) \<Rightarrow> (Inl e, st1\<lparr>world := w\<rparr>)
                | (Inr (v, td), w) \<Rightarrow> (Inr v, push_async_exit ref td (st1\<lparr>world := w\<rparr>)))))"
| "acreate_instance n provider st =
     (case validate_instance_is_not_resource provider of
        Inl e \<Rightarrow> (Inl e, st)
      | Inr _ \<Rightarrow>
          (case parameters provider of
             Inl e \<Rightarrow> (Inl e, st)
           | Inr ps \<Rightarrow>
               (case aget_provider_arguments n ps ([], []) st of
                  (Inl e, st1) \<Rightarrow> (Inl e, st1)
                | (Inr (args, kwargs), st1) \<Rightarrow>
                    (case call_obj (obj provider) args kwargs (world st1) of
                       (r, w) \<Rightarrow> (r, st1\<lparr>world := w\<rparr>)))))"
| "aget_provider_arguments n [] (args, kwargs) st = (Inr (args, kwargs), st)"
| "aget_provider_arguments n (prm # ps) (args, kwargs) st =
     (case aget_instance n (annotation prm) st of
        (Inl e, st1) \<Rightarrow> (Inl e, st1)
      | (Inr instance, st1) \<Rightarrow>
          (if kind prm = POSITIONAL_ONLY
           then aget_provider_arguments n ps (args @ [instance], kwargs) st1
           else aget_provider_arguments n ps
                  (args, AList.update (name prm) instance kwargs) st1))"
  by pat_completeness auto
termination
  by (relation "inv_image (less_than <*lex*> less_than <*lex*> less_than)
        (\<lambda>x. case x of
           Inl (Inl (n, _)) \<Rightarrow> (n, 0::nat, 0::nat)
         | Inl (Inr (n, _)) \<Rightarrow> (n, 3, 0)
         | Inr (Inl (n, _)) \<Rightarrow> (n, 2, 0)
         | Inr (Inr (Inl (n, _))) \<Rightarrow> (n, 2, 0)
         | Inr (Inr (Inr (n, ps, _))) \<Rightarrow> (n, 1, length ps))") auto

section \<open>Closing a context\<close>

text \<open>
  \<open>ExitStack.close\<close>: while callbacks are left, the last one pushed is popped and called
  with the pending exception; what it leaves pending goes to the next one. A callback
  that returns a true value leaves nothing pending, one that returns a false value
  leaves the pending exception as it was, one that raises leaves its own exception.
\<close>

function ExitStack_close :: "'w teardown list \<Rightarrow> error option \<Rightarrow> 'w \<Rightarrow> error option \<times> 'w" where
  "ExitStack_close cbs exc w =
     (if cbs = [] then (exc, w)
      else (case (last cbs) exc w of (exc1, w1) \<Rightarrow> ExitStack_close (butlast cbs) exc1 w1))"
  by pat_completeness auto
termination
  by (relation "measure (\<lambda>(cbs, _, _). length cbs)") auto

declare ExitStack_close.simps [simp del]

text \<open>\<open>ScopedContext.close\<close>: \<open>self._stack.close()\<close>, which raises what is pending at the end.\<close>

definition ScopedContext_close :: "ctx_ref \<Rightarrow> 'w container \<Rightarrow> (error + unit) \<times> 'w container" where
  "ScopedContext_close ref st =
     (case ExitStack_close (stack (read_context ref st)) None (world st) of
        (exc, w) \<Rightarrow>
          (let st1 = write_context ref ((read_context ref st)\<lparr>stack := []\<rparr>) (st\<lparr>world := w\<rparr>)
           in case exc of None \<Rightarrow> (Inr (), st1) | Some e \<Rightarrow> (Inl e, st1)))"

text \<open>\<open>ScopedContext.aclose\<close>: the synchronous stack, then the asynchronous one.\<close>

definition ScopedContext_aclose :: "ctx_ref \<Rightarrow> 'w container \<Rightarrow> (error + unit) \<times> 'w container" where
  "ScopedContext_aclose ref st =
     (case ScopedContext_close ref st of
        (Inl e, st1) \<Rightarrow> (Inl e, st1)
      | (Inr _, st1) \<Rightarrow>
          (case ExitStack_close (async_stack (read_context ref st1)) None (world st1) of
             (exc, w) \<Rightarrow>
               (let st2 = write_context ref ((read_context ref st1)\<lparr>async_stack := []\<rparr>)
                            (st1\<lparr>world := w\<rparr>)
                in case exc of None \<Rightarrow> (Inr (), st2) | Some e \<Rightarrow> (Inl e, st2))))"

text \<open>\<open>PyxDI.close\<close>\<close>

definition close :: "'w container \<Rightarrow> (error + unit) \<times> 'w container" where
  "close st = ScopedContext_close SingletonRef st"

section \<open>Request scope and override\<close>

text \<open>
  \<open>with di.request_context(): body\<close>. The generator \<open>_request_context\<close> creates the
  context, sets the context variable (the token remembers the value before), and enters
  the context. When the body ends normally the generator resumes after its \<open>yield\<close>: it
  resets the variable, then \<open>__exit__\<close> closes the context. When the body raises, the
  exception is thrown into the generator at the \<open>yield\<close>: the rest of the \<open>with\<close> block
  is skipped, \<open>__exit__\<close> closes the context and the exception goes on (replaced by the
  one of \<open>close\<close>, if it raises).
\<close>

definition request_context ::
  "('w container \<Rightarrow> (error + 'a) \<times> 'w container) \<Rightarrow> 'w container
     \<Rightarrow> (error + 'a) \<times> 'w container" where
  "request_context body st =
     (let context = next_context st;
          token = request_context_var st;
          st1 = st\<lparr>request_contexts := (request_contexts st)(context := new_context),
                   next_context := Suc context,
                   request_context_var := Some context\<rparr>
      in case body st1 of
           (Inr r, st2) \<Rightarrow>
             (case ScopedContext_close (RequestRef context) (st2\<lparr>request_context_var := token\<rparr>) of
                (Inl e, st3) \<Rightarrow> (Inl e, st3)
              | (Inr _, st3) \<Rightarrow> (Inr r, st3))
         | (Inl e, st2) \<Rightarrow>
             (case ScopedContext_close (RequestRef context) st2 of
                (Inl e1, st3) \<Rightarrow> (Inl e1, st3)
              | (Inr _, st3) \<Rightarrow> (Inl e, st3)))"

text \<open>\<open>async with di.arequest_context(): body\<close>, the same generator with \<open>aclose\<close>.\<close>

definition arequest_context ::
  "('w container \<Rightarrow> (error + 'a) \<times> 'w container) \<Rightarrow> 'w container
     \<Rightarrow> (error + 'a) \<times> 'w container" where
  "arequest_context body st =
     (let context = next_context st;
          token = request_context_var st;
          st1 = st\<lparr>request_contexts := (request_contexts st)(context := new_context),
                   next_context := Suc context,
                   request_context_var := Some context\<rparr>
      in case body st1 of
           (Inr r, st2) \<Rightarrow>
             (case ScopedContext_aclose (RequestRef context) (st2\<lparr>request_context_var := token\<rparr>) of
                (Inl e, st3) \<Rightarrow> (Inl e, st3)
              | (Inr _, st3) \<Rightarrow> (Inr r, st3))
         | (Inl e, st2) \<Rightarrow>
             (case ScopedContext_aclose (RequestRef context) st2 of
                (Inl e1, st3) \<Rightarrow> (Inl e1, st3)
              | (Inr _, st3) \<Rightarrow> (Inl e, st3)))"

text \<open>
  \<open>with di.override(interface, instance): body\<close>. The generator stores the instance and
  yields; after a body that ends normally it deletes the entry (\<open>del\<close> raises \<open>KeyError\<close>
  when the entry is gone). A body that raises throws its exception into the generator
  at the \<open>yield\<close>, and nothing after the \<open>yield\<close> runs.
\<close>

definition override ::
  "iface \<Rightarrow> pyval \<Rightarrow> ('w container \<Rightarrow> (error + 'a) \<times> 'w container) \<Rightarrow> 'w container
     \<Rightarrow> (error + 'a) \<times> 'w container" where
  "override interface instance body st =
     (if \<not> has_provider interface st then (Inl (ProviderNotRegistered interface), st)
      else
        (case body (st\<lparr>override_instances := (override_instances st)(interface \<mapsto> instance)\<rparr>) of
           (Inl e, st2) \<Rightarrow> (Inl e, st2)
         | (Inr r, st2) \<Rightarrow>
             (case override_instances st2 interface of
                None \<Rightarrow> (Inl (KeyError interface), st2)
              | Some _ \<Rightarrow>
                  (Inr r, st2\<lparr>override_instances := (override_instances st2)(interface := None)\<rparr>))))"

section \<open>Client code used in the statements\<close>

text \<open>A factory without side effect that returns the object \<open>v\<close>.\<close>

definition const_factory :: "pyval \<Rightarrow> 'w call" where
  "const_factory v args kwargs w = (Inr v, w)"

text \<open>A factory that counts its calls in the world and returns a new object each time.\<close>

definition fresh_object :: "nat call" where
  "fresh_object args kwargs w = (Inr (Ref w), Suc w)"

text \<open>A factory that returns \<open>None\<close> on its first call and a new object afterwards.\<close>

definition none_first :: "nat call" where
  "none_first args kwargs w = (Inr (if w = 0 then PyNone else Ref w), Suc w)"


definition param :: "string \<Rightarrow> iface \<Rightarrow> parameter" where
  "param n a = \<lparr>name = n, annotation = a, kind = POSITIONAL_OR_KEYWORD\<rparr>"

text \<open>
  The three providers of the scope table: \<open>a() -> int\<close>, \<open>b(a: int) -> float\<close> and
  \<open>mixed(a: int, b: float) -> str\<close>, with \<open>int\<close>, \<open>float\<close>, \<open>str\<close> the keys 1, 2, 3,
  registered dependencies first with the scopes \<open>scope3\<close>, \<open>scope2\<close>, \<open>scope1\<close>.
\<close>

definition mixed :: "'w pyobj" where
  "mixed = Function [param ''a'' (TypeKey 1), param ''b'' (TypeKey 2)] (const_factory (Ref 3))"

definition register_chain ::
  "scope \<Rightarrow> scope \<Rightarrow> scope \<Rightarrow> 'w container \<Rightarrow> (error + 'w provider) \<times> 'w container" where
  "register_chain scope1 scope2 scope3 st =
     (case register_provider (TypeKey 0) (TypeKey 1) (Function [] (const_factory (Ref 1)))
             scope3 False st of
        (Inl e, st1) \<Rightarrow> (Inl e, st1)
      | (Inr _, st1) \<Rightarrow>
          (case register_provider (TypeKey 0) (TypeKey 2)
                  (Function [param ''a'' (TypeKey 1)] (const_factory (Ref 2))) scope2 False st1 of
             (Inl e, st2) \<Rightarrow> (Inl e, st2)
           | (Inr _, st2) \<Rightarrow> register_provider (TypeKey 0) (TypeKey 3) mixed scope1 False st2))"

text \<open>Resolving a list of interfaces one after the other; the first exception ends it.\<close>

fun resolve_all :: "nat \<Rightarrow> iface list \<Rightarrow> 'w container \<Rightarrow> (error + pyval list) \<times> 'w container" where
  "resolve_all n [] st = (Inr [], st)"
| "resolve_all n (i # is) st =
     (case get_instance n i st of
        (Inl e, st1) \<Rightarrow> (Inl e, st1)
      | (Inr v, st1) \<Rightarrow>
          (case resolve_all n is st1 of
             (Inl e, st2) \<Rightarrow> (Inl e, st2)
           | (Inr vs, st2) \<Rightarrow> (Inr (v # vs), st2)))"


text \<open>Request scopes entered one after the other, each around one body.\<close>

fun request_scopes ::
  "('w container \<Rightarrow> (error + 'a) \<times> 'w container) list \<Rightarrow> 'w container
     \<Rightarrow> (error + unit) \<times> 'w container" where
  "request_scopes [] st = (Inr (), st)"
| "request_scopes (body # bodies) st =
     (case request_context body st of
        (Inl e, st1) \<Rightarrow> (Inl e, st1)
      | (Inr _, st1) \<Rightarrow> request_scopes bodies st1)"

text \<open>A block that raises, and a block that runs \<open>body\<close> and then raises.\<close>

definition raising :: "nat \<Rightarrow> 'w container \<Rightarrow> (error + pyval) \<times> 'w container" where
  "raising k st = (Inl (Raised k), st)"

definition then_raise ::
  "('w container \<Rightarrow> (error + pyval) \<times> 'w container) \<Rightarrow> nat \<Rightarrow> 'w container
     \<Rightarrow> (error + pyval) \<times> 'w container" where
  "then_raise body k st =
     (case body st of (Inl e, st1) \<Rightarrow> (Inl e, st1) | (Inr _, st1) \<Rightarrow> (Inl (Raised k), st1))"

text \<open>
  A resource that records its setup and its teardown in the world, a list of events:
  \<open>events.append(before); yield v; events.append(after)\<close>. The code after the \<open>yield\<close>
  runs when no exception is thrown into the generator.
\<close>

datatype event = Setup iface | Teardown iface

definition logging_teardown :: "iface \<Rightarrow> event list teardown" where
  "logging_teardown i exc w = (case exc of None \<Rightarrow> (None, w @ [Teardown i]) | Some e \<Rightarrow> (Some e, w))"

definition logging_enter :: "iface \<Rightarrow> pyval \<Rightarrow> event list enter" where
  "logging_enter i v args kwargs w = (Inr (v, logging_teardown i), w @ [Setup i])"

definition logging_resource :: "iface \<Rightarrow> pyval \<Rightarrow> event list pyobj" where
  "logging_resource i v = GeneratorFunction [] (logging_enter i v)"

text \<open>Containers of the examples.\<close>

definition di_str :: "scope \<Rightarrow> nat call \<Rightarrow> nat container" where
  "di_str sc f = snd (register_provider (TypeKey 0) (TypeKey 3) (Function [] f) sc False (PyxDI 0))"



definition di_transient_int :: "nat container" where
  "di_transient_int =
     snd (register_provider (TypeKey 0) (TypeKey 1) (Function [] (const_factory (Ref 1)))
            ''transient'' False (PyxDI 0))"

definition di_chain :: "nat container" where
  "di_chain = snd (register_chain ''transient'' ''transient'' ''transient'' (PyxDI 0))"

definition di_resources :: "scope \<Rightarrow> event list container" where
  "di_resources sc =
     snd (register_provider (TypeKey 0) (TypeKey 2) (logging_resource (TypeKey 2) (Ref 2)) sc False
       (snd (register_provider (TypeKey 0) (TypeKey 1) (logging_resource (TypeKey 1) (Ref 1)) sc False
          (PyxDI []))))"

text \<open>
  What a resolution leaves alone: the registry, the override map, the context variable
  and the store's next address.
\<close>

definition same_frame :: "'w container \<Rightarrow> 'w container \<Rightarrow> bool" where
  "same_frame st st' =
     (providers st' = providers st \<and> override_instances st' = override_instances st
      \<and> request_context_var st' = request_context_var st \<and> next_context st' = next_context st)"

section \<open>Properties\<close>

declare ScopedContext_get.simps [simp del] create_resource.simps [simp del]
  create_instance.simps [simp del] get_instance.simps(2) [simp del]
  ScopedContext_aget.simps [simp del] acreate_resource.simps [simp del]
  acreate_instance.simps [simp del] aget_instance.simps(2) [simp del]

subsection \<open>Registration\<close>

lemma match_scopes_cases:
  "match_scopes p rs =
     (if \<forall>q\<in>set rs. scope q \<in> set (allowed_scopes (scope p)) then Inr () else Inl ScopeMismatch)"
  by (induction rs) auto

lemma related_providers_total:
  "\<forall>prm\<in>set ps. annotation prm \<noteq> Empty \<and> has_provider (annotation prm) st \<Longrightarrow>
   \<exists>rs. related_providers ps st = Inr rs"
  by (induction ps) (auto simp: get_provider_def has_provider_def split: option.splits)

lemma register_chain_scopes:
  "\<forall>s1\<in>set Scope. \<forall>s2\<in>set Scope. \<forall>s3\<in>set Scope.
     fst (register_chain s1 s2 s3 (PyxDI w)) =
       (if s3 \<in> set (allowed_scopes s2) \<and> s3 \<in> set (allowed_scopes s1)
           \<and> s2 \<in> set (allowed_scopes s1)
        then Inr \<lparr>obj = mixed, scope = s1\<rparr>
        else Inl ScopeMismatch)"
  by (simp add: Scope_def register_chain_def register_provider_def has_provider_def PyxDI_def
      validate_provider_scope_def validate_provider_type_def validate_provider_match_scopes_def
      is_function_def is_class_def is_resource_def is_async_resource_def parameters_def
      get_provider_def allowed_scopes_def ALLOWED_SCOPES_def param_def mixed_def Let_def
      update_conv')

lemmas register_defs = register_provider_def has_provider_def PyxDI_def
  validate_provider_scope_def validate_provider_type_def validate_provider_match_scopes_def
  is_function_def is_class_def is_resource_def is_async_resource_def parameters_def
  get_provider_def allowed_scopes_def ALLOWED_SCOPES_def param_def Let_def Scope_def
  update_conv'

lemma related_providers_set:
  "related_providers ps st = Inr rs \<Longrightarrow>
   set rs = {q. \<exists>prm\<in>set ps. map_of (providers st) (annotation prm) = Some q}
   \<and> (\<forall>prm\<in>set ps. annotation prm \<noteq> Empty \<and> has_provider (annotation prm) st)"
proof (induction ps arbitrary: rs)
  case Nil
  then show ?case by simp
next
  case (Cons prm ps)
  from Cons.prems obtain q rs' where
    a: "annotation prm \<noteq> Empty" and q: "map_of (providers st) (annotation prm) = Some q"
    and r: "related_providers ps st = Inr rs'" and rs: "rs = q # rs'"
    by (auto simp: get_provider_def split: if_splits sum.splits option.splits)
  from Cons.IH [OF r] a q rs show ?case
    by (auto simp: has_provider_def)
qed

lemma validate_provider_match_scopes_cases:
  assumes ps: "get_signature (obj p) = Inr ps"
    and bound: "\<forall>prm\<in>set ps. annotation prm \<noteq> Empty \<and> has_provider (annotation prm) st"
  shows "validate_provider_match_scopes i p st =
           (if \<forall>prm\<in>set ps. \<forall>q. map_of (providers st) (annotation prm) = Some q
                  \<longrightarrow> scope q \<in> set (allowed_scopes (scope p))
            then Inr () else Inl ScopeMismatch)"
proof -
  from related_providers_total [OF bound] obtain rs where rs: "related_providers ps st = Inr rs"
    by blast
  from related_providers_set [OF rs]
  have s: "set rs = {q. \<exists>prm\<in>set ps. map_of (providers st) (annotation prm) = Some q}"
    by simp
  have "(\<forall>q\<in>set rs. scope q \<in> set (allowed_scopes (scope p))) =
        (\<forall>prm\<in>set ps. \<forall>q. map_of (providers st) (annotation prm) = Some q
                  \<longrightarrow> scope q \<in> set (allowed_scopes (scope p)))"
    unfolding s by blast
  then show ?thesis
    by (simp add: validate_provider_match_scopes_def parameters_def ps rs match_scopes_cases)
qed

lemma validate_provider_match_scopes_Inr:
  assumes ps: "get_signature (obj p) = Inr ps"
    and ok: "validate_provider_match_scopes i p st = Inr u"
  shows "\<forall>prm\<in>set ps. \<exists>q. map_of (providers st) (annotation prm) = Some q
            \<and> scope q \<in> set (allowed_scopes (scope p))"
proof -
  from ok ps obtain rs where rs: "related_providers ps st = Inr rs"
    and m: "match_scopes p rs = Inr u"
    by (auto simp: validate_provider_match_scopes_def parameters_def split: sum.splits)
  from related_providers_set [OF rs]
  have s: "set rs = {q. \<exists>prm\<in>set ps. map_of (providers st) (annotation prm) = Some q}"
    and b: "\<forall>prm\<in>set ps. has_provider (annotation prm) st"
    by simp_all
  from m have "\<forall>q\<in>set rs. scope q \<in> set (allowed_scopes (scope p))"
    by (simp add: match_scopes_cases split: if_splits)
  with s b show ?thesis
    by (fastforce simp: has_provider_def)
qed

lemma allowed_scopes_values:
  "set (allowed_scopes ''singleton'') = {''singleton''}"
  "set (allowed_scopes ''request'') = {''request'', ''singleton''}"
  "set (allowed_scopes ''transient'') = {''transient'', ''singleton'', ''request''}"
  by (auto simp: allowed_scopes_def ALLOWED_SCOPES_def)

text \<open>
  Claim C1, amended. The claim says that a registration whose dependency has a scope
  outside \<open>allowed(S)\<close> fails with the scope mismatch. The code checks other things
  first, so the claim holds for a registration on an interface that is not bound yet:
  such a call succeeds only if every parameter is bound to a provider whose scope is in
  \<open>allowed(S)\<close>; and when the scope is one of the three, the provider type is legal and
  every parameter is annotated with a bound interface, it succeeds if all dependency
  scopes are allowed and raises the scope mismatch otherwise. The three \<open>allowed\<close> sets
  are those of the claim, and the three-provider chain, registered dependencies first,
  succeeds or raises the scope mismatch as the table says, for all 27 combinations.
\<close>

theorem register_provider_scope_compatibility:
  assumes unbound: "\<not> has_provider interface st" "\<not> has_provider event st"
    and ps: "get_signature ob = Inr ps"
  shows "(\<forall>p st'. register_provider event interface ob sc ov st = (Inr p, st') \<longrightarrow>
            (\<forall>prm\<in>set ps. \<exists>q. map_of (providers st) (annotation prm) = Some q
                \<and> scope q \<in> set (allowed_scopes sc)))
       \<and> (sc \<in> set Scope \<and> validate_provider_type \<lparr>obj = ob, scope = sc\<rparr> = Inr ()
            \<and> (\<forall>prm\<in>set ps. annotation prm \<noteq> Empty \<and> has_provider (annotation prm) st)
          \<longrightarrow> fst (register_provider event interface ob sc ov st) =
                (if \<forall>prm\<in>set ps. \<forall>q. map_of (providers st) (annotation prm) = Some q
                       \<longrightarrow> scope q \<in> set (allowed_scopes sc)
                 then Inr \<lparr>obj = ob, scope = sc\<rparr> else Inl ScopeMismatch))
       \<and> set (allowed_scopes ''singleton'') = {''singleton''}
       \<and> set (allowed_scopes ''request'') = {''request'', ''singleton''}
       \<and> set (allowed_scopes ''transient'') = {''transient'', ''singleton'', ''request''}
       \<and> (\<forall>s1\<in>set Scope. \<forall>s2\<in>set Scope. \<forall>s3\<in>set Scope.
            fst (register_chain s1 s2 s3 (PyxDI w)) =
              (if s3 \<in> set (allowed_scopes s2) \<and> s3 \<in> set (allowed_scopes s1)
                  \<and> s2 \<in> set (allowed_scopes s1)
               then Inr \<lparr>obj = mixed, scope = s1\<rparr>
               else Inl ScopeMismatch))"
proof -
  let ?p = "\<lparr>obj = ob, scope = sc\<rparr>"
  let ?i = "if (is_resource ?p \<or> is_async_resource ?p)
                \<and> (interface = NoneTypeKey \<or> interface = NoneKey) then event else interface"
  have nb: "\<not> has_provider ?i st" using unbound by simp
  have ps': "get_signature (obj ?p) = Inr ps" using ps by simp
  have a: "\<forall>p st'. register_provider event interface ob sc ov st = (Inr p, st') \<longrightarrow>
            (\<forall>prm\<in>set ps. \<exists>q. map_of (providers st) (annotation prm) = Some q
                \<and> scope q \<in> set (allowed_scopes sc))"
  proof (intro allI impI)
    fix p st'
    assume r: "register_provider event interface ob sc ov st = (Inr p, st')"
    with nb obtain u where "validate_provider_match_scopes ?i ?p st = Inr u"
      unfolding register_provider_def Let_def by (auto split: sum.splits if_splits)
    from validate_provider_match_scopes_Inr [OF ps' this]
    show "\<forall>prm\<in>set ps. \<exists>q. map_of (providers st) (annotation prm) = Some q
                \<and> scope q \<in> set (allowed_scopes sc)" by simp
  qed
  have b: "sc \<in> set Scope \<and> validate_provider_type ?p = Inr ()
            \<and> (\<forall>prm\<in>set ps. annotation prm \<noteq> Empty \<and> has_provider (annotation prm) st)
          \<longrightarrow> fst (register_provider event interface ob sc ov st) =
                (if \<forall>prm\<in>set ps. \<forall>q. map_of (providers st) (annotation prm) = Some q
                       \<longrightarrow> scope q \<in> set (allowed_scopes sc)
                 then Inr ?p else Inl ScopeMismatch)"
  proof (intro impI, elim conjE)
    assume sc: "sc \<in> set Scope" and ty: "validate_provider_type ?p = Inr ()"
      and bound: "\<forall>prm\<in>set ps. annotation prm \<noteq> Empty \<and> has_provider (annotation prm) st"
    have v: "validate_provider_scope ?p = Inr ()" using sc by (simp add: validate_provider_scope_def)
    note m = validate_provider_match_scopes_cases [OF ps' bound, of ?i]
    show "fst (register_provider event interface ob sc ov st) =
                (if \<forall>prm\<in>set ps. \<forall>q. map_of (providers st) (annotation prm) = Some q
                       \<longrightarrow> scope q \<in> set (allowed_scopes sc)
                 then Inr ?p else Inl ScopeMismatch)"
      using nb v ty m unfolding register_provider_def Let_def by simp
  qed
  from a b allowed_scopes_values register_chain_scopes [of w] show ?thesis by blast
qed


lemma di_transient_int_providers:
  "providers di_transient_int
     = [(TypeKey 1, \<lparr>obj = Function [] (const_factory (Ref 1)), scope = ''transient''\<rparr>)]"
  by (simp add: di_transient_int_def register_defs)

lemma di_chain_providers:
  "providers di_chain
     = [(TypeKey 1, \<lparr>obj = Function [] (const_factory (Ref 1)), scope = ''transient''\<rparr>),
        (TypeKey 2, \<lparr>obj = Function [param ''a'' (TypeKey 1)] (const_factory (Ref 2)),
                     scope = ''transient''\<rparr>),
        (TypeKey 3, \<lparr>obj = mixed, scope = ''transient''\<rparr>)]"
  by (simp add: di_chain_def register_chain_def mixed_def register_defs)

theorem register_provider_scope_compatibility_witness:
  "\<not> has_provider (TypeKey 2) di_transient_int \<and> \<not> has_provider (TypeKey 0) di_transient_int
   \<and> fst (register_provider (TypeKey 0) (TypeKey 2)
            (Function [param ''a'' (TypeKey 1)] (const_factory (Ref 2))) ''singleton'' False
            di_transient_int) = Inl ScopeMismatch
   \<and> fst (register_chain ''request'' ''singleton'' ''request'' (PyxDI (0::nat))) = Inl ScopeMismatch
   \<and> fst (register_chain ''request'' ''request'' ''singleton'' (PyxDI (0::nat)))
       = Inr \<lparr>obj = mixed, scope = ''request''\<rparr>"
proof -
  have u: "\<not> has_provider (TypeKey 2) di_transient_int"
    "\<not> has_provider (TypeKey 0) di_transient_int"
    by (simp_all add: has_provider_def di_transient_int_providers)
  have g: "get_signature (Function [param ''a'' (TypeKey 1)] (const_factory (Ref 2)) :: nat pyobj)
             = Inr [param ''a'' (TypeKey 1)]"
    by simp
  note t = register_provider_scope_compatibility [OF u g, of "''singleton''" False 0]
  have b: "fst (register_provider (TypeKey 0) (TypeKey 2)
            (Function [param ''a'' (TypeKey 1)] (const_factory (Ref 2))) ''singleton'' False
            di_transient_int) = Inl ScopeMismatch"
    using t [THEN conjunct2, THEN conjunct1]
    by (simp add: has_provider_def di_transient_int_providers Scope_def param_def
        validate_provider_type_def is_function_def is_class_def is_resource_def
        is_async_resource_def allowed_scopes_def ALLOWED_SCOPES_def)
  have c: "\<forall>s1\<in>set Scope. \<forall>s2\<in>set Scope. \<forall>s3\<in>set Scope.
            fst (register_chain s1 s2 s3 (PyxDI (0::nat))) =
              (if s3 \<in> set (allowed_scopes s2) \<and> s3 \<in> set (allowed_scopes s1)
                  \<and> s2 \<in> set (allowed_scopes s1)
               then Inr \<lparr>obj = mixed, scope = s1\<rparr>
               else Inl ScopeMismatch)"
    by (rule t [THEN conjunct2, THEN conjunct2, THEN conjunct2, THEN conjunct2, THEN conjunct2])
  have d: "fst (register_chain ''request'' ''singleton'' ''request'' (PyxDI (0::nat)))
             = Inl ScopeMismatch"
  proof -
    have m: "''request'' \<in> set Scope" "''singleton'' \<in> set Scope" by (simp_all add: Scope_def)
    from c [rule_format, OF m(1) m(2) m(1)] show ?thesis
      by (simp add: allowed_scopes_def ALLOWED_SCOPES_def)
  qed
  have e: "fst (register_chain ''request'' ''request'' ''singleton'' (PyxDI (0::nat)))
             = Inr \<lparr>obj = mixed, scope = ''request''\<rparr>"
  proof -
    have m: "''request'' \<in> set Scope" "''singleton'' \<in> set Scope" by (simp_all add: Scope_def)
    from c [rule_format, OF m(1) m(1) m(2)] show ?thesis
      by (simp add: allowed_scopes_def ALLOWED_SCOPES_def)
  qed
  from u b d e show ?thesis by simp
qed

text \<open>
  The claim as stated fails on a bound interface and next to an unbound dependency:
  \<open>int\<close> is bound with the scope \<open>transient\<close>, which \<open>singleton\<close> does not allow; a
  \<open>singleton\<close> provider that depends on \<open>int\<close> is refused with \<open>ProviderAlreadyBound\<close>
  when its interface is bound, and with the \<open>LookupError\<close> of \<open>get_provider\<close> when
  another of its parameters is not bound, not with the scope mismatch.
\<close>

theorem register_scope_mismatch_counterexample:
  "map_of (providers di_chain) (TypeKey 1)
     = Some \<lparr>obj = Function [] (const_factory (Ref 1)), scope = ''transient''\<rparr>
   \<and> ''transient'' \<notin> set (allowed_scopes ''singleton'')
   \<and> register_provider (TypeKey 0) (TypeKey 2)
        (Function [param ''a'' (TypeKey 1)] (const_factory (Ref 2))) ''singleton'' False di_chain
       = (Inl (ProviderAlreadyBound (TypeKey 2)), di_chain)
   \<and> register_provider (TypeKey 0) (TypeKey 4)
        (Function [param ''a'' (TypeKey 1), param ''c'' (TypeKey 5)] (const_factory (Ref 4)))
        ''singleton'' False di_chain
       = (Inl (BindingDoesNotExist (TypeKey 5)), di_chain)"
  by (simp add: di_chain_providers register_defs)

text \<open>
  Claim C7. Whatever exception \<open>register_provider\<close> raises (already bound, invalid scope,
  invalid provider type, scope mismatch, missing annotation, unknown dependency), the
  container after the call is the container before it: the provider is not inserted
  and the registry is unchanged.
\<close>

theorem register_provider_error_atomic:
  "register_provider event interface ob sc ov st = (Inl e, st') \<Longrightarrow>
   st' = st \<and> providers st' = providers st"
  unfolding register_provider_def
  by (auto simp: Let_def split: if_splits sum.splits)

theorem register_provider_error_atomic_witness:
  "register_provider (TypeKey 0) (TypeKey 3) mixed ''singleton'' False di_transient_int
     = (Inl (BindingDoesNotExist (TypeKey 2)), di_transient_int)"
proof -
  have r: "register_provider (TypeKey 0) (TypeKey 3) mixed ''singleton'' False di_transient_int
     = (Inl (BindingDoesNotExist (TypeKey 2)),
        snd (register_provider (TypeKey 0) (TypeKey 3) mixed ''singleton'' False di_transient_int))"
    by (simp add: di_transient_int_def mixed_def register_defs)
  from register_provider_error_atomic [OF r] r show ?thesis by simp
qed

text \<open>
  Claim C3. The claim says that every inserting call of \<open>register_provider\<close> runs the three
  validations first, also with \<open>override=True\<close> on a bound interface. The code returns
  from that branch before the validations: on a container where \<open>str\<close> is bound, registering
  a non-callable object with the scope \<open>session\<close> and \<open>override=True\<close> inserts it, although
  the scope validation and the type validation both reject this provider.
\<close>

theorem register_override_skips_validation:
  "register_provider (TypeKey 0) (TypeKey 3) NonCallable ''session'' True
       (di_str ''singleton'' fresh_object)
     = (Inr \<lparr>obj = NonCallable, scope = ''session''\<rparr>,
        (di_str ''singleton'' fresh_object)
          \<lparr>providers := [(TypeKey 3, \<lparr>obj = NonCallable, scope = ''session''\<rparr>)]\<rparr>)
   \<and> validate_provider_scope \<lparr>obj = NonCallable, scope = ''session''\<rparr> = Inl InvalidScope
   \<and> validate_provider_type \<lparr>obj = NonCallable, scope = ''session''\<rparr> = Inl InvalidProviderType"
  by (simp add: di_str_def register_defs)

lemma di_str_eq:
  "sc \<in> set Scope \<Longrightarrow>
   di_str sc f = (PyxDI 0)\<lparr>providers := [(TypeKey 3, \<lparr>obj = Function [] f, scope = sc\<rparr>)]\<rparr>"
  by (simp add: di_str_def register_defs)

lemmas resolve_simps = get_instance.simps ScopedContext_get.simps create_instance.simps
  create_resource.simps get_provider_def get_scoped_context_def get_request_context_def
  dict_get_def set_instance_def push_exit_def validate_instance_is_not_resource_def
  is_resource_def is_async_resource_def is_coroutine_def parameters_def Let_def

lemmas aresolve_simps = aget_instance.simps ScopedContext_aget.simps acreate_instance.simps
  acreate_resource.simps push_async_exit_def

lemmas close_simps = ScopedContext_close_def ScopedContext_aclose_def ExitStack_close.simps

subsection \<open>Override and request scope on the exception path\<close>

text \<open>
  Claim C2. The claim says that \<open>override\<close> removes its entry on every exit path, also
  when the wrapped block raises. The generator has no \<open>try\<close>/\<open>finally\<close> around its
  \<open>yield\<close>: after \<open>with di.override(str, other): raise E\<close> the entry is still in the
  override map, and \<open>get_instance(str)\<close> returns the overriding instance, not the
  provider's own value (which is the object 0 here).
\<close>

theorem override_not_removed_when_block_raises:
  "fst (override (TypeKey 3) (Ref 7) (raising 1) (di_str ''singleton'' fresh_object))
     = Inl (Raised 1)
   \<and> override_instances
        (snd (override (TypeKey 3) (Ref 7) (raising 1) (di_str ''singleton'' fresh_object)))
        (TypeKey 3) = Some (Ref 7)
   \<and> fst (get_instance (Suc 0) (TypeKey 3)
        (snd (override (TypeKey 3) (Ref 7) (raising 1) (di_str ''singleton'' fresh_object))))
     = Inr (Ref 7)
   \<and> fst (get_instance (Suc 0) (TypeKey 3) (di_str ''singleton'' fresh_object)) = Inr (Ref 0)"
  by (simp add: di_str_eq Scope_def override_def raising_def has_provider_def PyxDI_def
      resolve_simps fresh_object_def new_context_def)

text \<open>
  Claim C5. The claim says that two resolutions of a singleton interface return the same
  instance. \<open>ScopedContext.get\<close> takes a cached \<open>None\<close> for a missing entry, so for a
  factory that returns \<open>None\<close> on its first call and an object on its second, the first
  resolution returns \<open>None\<close> and the second calls the factory again and returns the
  object.
\<close>

theorem singleton_none_first_differs:
  "fst (get_instance (Suc 0) (TypeKey 3) (di_str ''singleton'' none_first)) = Inr PyNone
   \<and> fst (get_instance (Suc 0) (TypeKey 3)
        (snd (get_instance (Suc 0) (TypeKey 3) (di_str ''singleton'' none_first))))
     = Inr (Ref 1)"
  by (simp add: di_str_eq Scope_def PyxDI_def resolve_simps none_first_def new_context_def)

text \<open>
  Claim C8. The claim says that the context variable reverts to its prior value on every
  exit path of a request scope, also when the wrapped block raises. The reset is the last
  statement inside the \<open>with context:\<close> block of the generator, after the \<open>yield\<close>, so an
  exception thrown in at the \<open>yield\<close> skips it: after
  \<open>with di.request_context(): di.get_instance(str); raise E\<close> the variable, which was
  unset before, still holds the ended context, and a resolution outside any scope
  returns the instance cached in it. The asynchronous generator does the same.
\<close>

theorem request_context_not_reset_when_block_raises:
  "fst (request_context (then_raise (get_instance (Suc 0) (TypeKey 3)) 1)
         (di_str ''request'' fresh_object)) = Inl (Raised 1)
   \<and> request_context_var (di_str ''request'' fresh_object) = None
   \<and> request_context_var
        (snd (request_context (then_raise (get_instance (Suc 0) (TypeKey 3)) 1)
               (di_str ''request'' fresh_object))) = Some 0
   \<and> fst (get_instance (Suc 0) (TypeKey 3)
        (snd (request_context (then_raise (get_instance (Suc 0) (TypeKey 3)) 1)
               (di_str ''request'' fresh_object)))) = Inr (Ref 0)
   \<and> request_context_var
        (snd (arequest_context (then_raise (aget_instance (Suc 0) (TypeKey 3)) 1)
               (di_str ''request'' fresh_object))) = Some 0"
  by (simp add: di_str_eq Scope_def PyxDI_def resolve_simps aresolve_simps fresh_object_def
      new_context_def request_context_def arequest_context_def then_raise_def close_simps)

subsection \<open>Request scope\<close>

lemma same_frame_refl [simp]: "same_frame st st"
  by (simp add: same_frame_def)

lemma same_frame_trans: "same_frame a b \<Longrightarrow> same_frame b c \<Longrightarrow> same_frame a c"
  by (simp add: same_frame_def)

lemma same_frame_write [simp]: "same_frame st (write_context ref c st') = same_frame st st'"
  by (cases ref) (simp_all add: same_frame_def)

lemma same_frame_world [simp]: "same_frame st (st'\<lparr>world := w\<rparr>) = same_frame st st'"
  by (simp add: same_frame_def)

lemma get_instance_frame:
  "same_frame st (snd (get_instance n interface st))"
  "same_frame st (snd (ScopedContext_get n ref interface st))"
  "same_frame st (snd (create_resource n provider ref st))"
  "same_frame st (snd (create_instance n provider st))"
  "same_frame st (snd (get_provider_arguments n ps acc st))"
proof (induction n interface st and n ref interface st and n provider ref st and n provider st
        and n ps acc st
        rule: get_instance_ScopedContext_get_create_resource_create_instance_get_provider_arguments.induct)
  case (1 interface st)
  then show ?case by simp
next
  case (2 n interface st)
  then show ?case by (subst get_instance.simps) (simp split: option.splits sum.splits)
next
  case (3 n ref interface st)
  show ?case
  proof (cases "dict_get (instances (read_context ref st)) interface = PyNone")
    case False
    then show ?thesis by (subst ScopedContext_get.simps) (simp add: Let_def)
  next
    case miss: True
    show ?thesis
    proof (cases "get_provider interface st")
      case (Inl e)
      with miss show ?thesis by (subst ScopedContext_get.simps) (simp add: Let_def)
    next
      case (Inr p)
      have a: "is_resource p \<Longrightarrow> same_frame st (snd (create_resource n p ref st))"
        using "3.IH"(1) miss Inr by blast
      have b: "\<not> is_resource p \<Longrightarrow> same_frame st (snd (create_instance n p st))"
        using "3.IH"(2) miss Inr by blast
      from miss Inr a b show ?thesis
        by (subst ScopedContext_get.simps)
           (auto simp: Let_def set_instance_def split: sum.splits prod.splits)
    qed
  qed
next
  case (4 n provider ref st)
  then show ?case
    by (subst create_resource.simps) (auto simp: push_exit_def split: sum.splits prod.splits)
next
  case (5 n provider st)
  then show ?case
    by (subst create_instance.simps) (auto split: sum.splits prod.splits)
next
  case (6 n args kwargs st)
  then show ?case by simp
next
  case (7 n prm ps args kwargs st)
  then show ?case
    by (auto split: sum.splits prod.splits intro: same_frame_trans)
qed

lemma ScopedContext_close_frame: "same_frame st (snd (ScopedContext_close ref st))"
  by (simp add: ScopedContext_close_def Let_def split: prod.splits option.splits)

lemma request_context_normal_exit:
  assumes body: "request_context_var (snd (body (st\<lparr>request_contexts := (request_contexts st)(next_context st := new_context),
                   next_context := Suc (next_context st),
                   request_context_var := Some (next_context st)\<rparr>))) = Some (next_context st)"
    and r: "request_context body st = (Inr r, st')"
  shows "request_context_var st' = request_context_var st"
proof -
  let ?st1 = "st\<lparr>request_contexts := (request_contexts st)(next_context st := new_context),
                   next_context := Suc (next_context st),
                   request_context_var := Some (next_context st)\<rparr>"
  obtain b st2 where b: "body ?st1 = (b, st2)" by (cases "body ?st1")
  from r b obtain r' where b': "b = Inr r'"
    by (cases b) (auto simp: request_context_def Let_def split: prod.splits sum.splits)
  let ?st3 = "st2\<lparr>request_context_var := request_context_var st\<rparr>"
  from r b b' have "st' = snd (ScopedContext_close (RequestRef (next_context st)) ?st3)"
    by (auto simp: request_context_def Let_def split: prod.splits sum.splits)
  with ScopedContext_close_frame [of ?st3 "RequestRef (next_context st)"]
  show ?thesis by (simp add: same_frame_def)
qed

lemma request_scopes_var:
  assumes "\<forall>body\<in>set bodies. \<forall>s. request_context_var (snd (body s)) = request_context_var s"
    and "request_scopes bodies st = (Inr u, st')"
  shows "request_context_var st' = request_context_var st"
  using assms
proof (induction bodies arbitrary: st)
  case Nil
  then show ?case by simp
next
  case (Cons body bodies)
  from Cons.prems(2) obtain r st1 where r: "request_context body st = (Inr r, st1)"
    and rest: "request_scopes bodies st1 = (Inr u, st')"
    by (auto split: prod.splits sum.splits)
  have "request_context_var st1 = request_context_var st"
    using Cons.prems(1) by (intro request_context_normal_exit [OF _ r]) simp
  moreover have "request_context_var st' = request_context_var st1"
    using Cons.IH [OF _ rest] Cons.prems(1) by simp
  ultimately show ?case by simp
qed

text \<open>
  Claim C6, amended. The claim says that resolving a request-scoped interface outside a
  request scope raises \<open>ContextNotStarted\<close> for every request-scoped provider. An
  override instance is returned before the provider is looked up, so the claim holds
  for an interface without an override instance: when the context variable is unset at
  the start, after any number of request scopes that were entered and left normally
  (around bodies that leave the context variable as they found it) the variable is
  unset again and \<open>get_instance\<close> and \<open>aget_instance\<close> raise \<open>ContextNotStarted\<close>. With
  an empty list of bodies this is the case where no scope was entered at all.
\<close>

theorem request_scoped_outside_scope_fails:
  assumes unset: "request_context_var st = None"
    and bodies: "\<forall>body\<in>set bodies. \<forall>s. request_context_var (snd (body s)) = request_context_var s"
    and scopes: "request_scopes bodies st = (Inr u, st')"
    and no_override: "override_instances st' interface = None"
    and bound: "map_of (providers st') interface = Some p"
    and request: "scope p = ''request''"
  shows "request_context_var st' = None
       \<and> get_instance (Suc n) interface st' = (Inl ContextNotStarted, st')
       \<and> aget_instance (Suc n) interface st' = (Inl ContextNotStarted, st')"
proof -
  from request_scopes_var [OF bodies scopes] unset have v: "request_context_var st' = None"
    by simp
  from v no_override bound request show ?thesis
    by (simp add: get_instance.simps aget_instance.simps get_provider_def get_scoped_context_def
        get_request_context_def)
qed

theorem request_scoped_outside_scope_fails_witness:
  "request_context_var (di_str ''request'' fresh_object) = None
   \<and> fst (request_scopes [get_instance (Suc 0) (TypeKey 3), get_instance (Suc 0) (TypeKey 3)]
           (di_str ''request'' fresh_object)) = Inr ()
   \<and> world (snd (request_scopes [get_instance (Suc 0) (TypeKey 3), get_instance (Suc 0) (TypeKey 3)]
           (di_str ''request'' fresh_object))) = 2
   \<and> fst (get_instance (Suc 0) (TypeKey 3)
        (snd (request_scopes [get_instance (Suc 0) (TypeKey 3), get_instance (Suc 0) (TypeKey 3)]
           (di_str ''request'' fresh_object)))) = Inl ContextNotStarted"
proof -
  let ?bodies = "[get_instance (Suc 0) (TypeKey 3), get_instance (Suc 0) (TypeKey 3)]
                   :: (nat container \<Rightarrow> (error + pyval) \<times> nat container) list"
  let ?st = "di_str ''request'' fresh_object"
  let ?st' = "snd (request_scopes ?bodies ?st)"
  have unset: "request_context_var ?st = None"
    by (simp add: di_str_eq Scope_def PyxDI_def)
  have bodies: "\<forall>body\<in>set ?bodies. \<forall>s. request_context_var (snd (body s)) = request_context_var s"
    using get_instance_frame(1) by (auto simp: same_frame_def)
  have f: "fst (request_scopes ?bodies ?st) = Inr ()"
    by (simp add: di_str_eq Scope_def PyxDI_def resolve_simps fresh_object_def
        new_context_def request_context_def close_simps)
  then have scopes: "request_scopes ?bodies ?st = (Inr (), ?st')"
    by (simp add: prod_eq_iff)
  have no_override: "override_instances ?st' (TypeKey 3) = None"
    by (simp add: di_str_eq Scope_def PyxDI_def resolve_simps fresh_object_def
        new_context_def request_context_def close_simps)
  have bound: "map_of (providers ?st') (TypeKey 3)
                 = Some \<lparr>obj = Function [] fresh_object, scope = ''request''\<rparr>"
    by (simp add: di_str_eq Scope_def PyxDI_def resolve_simps fresh_object_def
        new_context_def request_context_def close_simps)
  have w: "world ?st' = 2"
    by (simp add: di_str_eq Scope_def PyxDI_def resolve_simps fresh_object_def
        new_context_def request_context_def close_simps)
  from request_scoped_outside_scope_fails [OF unset bodies scopes no_override bound, of 0]
    unset f w
  show ?thesis by simp
qed

text \<open>
  The claim as stated fails under an override: \<open>str\<close> is bound to a request-scoped
  provider and no request scope is active, and inside \<open>with di.override(str, other)\<close>
  the resolution returns the overriding instance.
\<close>

theorem request_scoped_override_counterexample:
  "request_context_var (di_str ''request'' fresh_object) = None
   \<and> map_of (providers (di_str ''request'' fresh_object)) (TypeKey 3)
       = Some \<lparr>obj = Function [] fresh_object, scope = ''request''\<rparr>
   \<and> override (TypeKey 3) (Ref 7) (get_instance (Suc 0) (TypeKey 3))
        (di_str ''request'' fresh_object)
     = (Inr (Ref 7), di_str ''request'' fresh_object)"
  by (simp add: di_str_eq Scope_def PyxDI_def resolve_simps override_def has_provider_def)

subsection \<open>Caches\<close>

lemma read_context_providers_update [simp]:
  "read_context ref (st\<lparr>providers := ps\<rparr>) = read_context ref st"
  by (cases ref) simp_all

lemma read_write_context [simp]: "read_context ref (write_context ref c st) = c"
  by (cases ref) simp_all

lemma get_scoped_context_providers_update [simp]:
  "get_scoped_context sc (st\<lparr>providers := ps\<rparr>) = get_scoped_context sc st"
  by (simp add: get_scoped_context_def get_request_context_def)







lemma world_write_context [simp]: "world (write_context ref c st) = world st"
  by (cases ref) simp_all

lemma providers_write_context [simp]: "providers (write_context ref c st) = providers st"
  by (cases ref) simp_all

lemma override_instances_write_context [simp]:
  "override_instances (write_context ref c st) = override_instances st"
  by (cases ref) simp_all

lemma get_scoped_context_write_context [simp]:
  "get_scoped_context sc (write_context ref c st) = get_scoped_context sc st"
  by (cases ref) (simp_all add: get_scoped_context_def get_request_context_def)

lemma get_scoped_context_world [simp]:
  "get_scoped_context sc (st\<lparr>world := w\<rparr>) = get_scoped_context sc st"
  by (simp add: get_scoped_context_def get_request_context_def)

lemma read_context_world [simp]: "read_context ref (st\<lparr>world := w\<rparr>) = read_context ref st"
  by (cases ref) simp_all











subsection \<open>Resource teardown\<close>

lemma ExitStack_close_Nil [simp]: "ExitStack_close [] exc w = (exc, w)"
  by (simp add: ExitStack_close.simps)

lemma ExitStack_close_snoc [simp]:
  "ExitStack_close (cbs @ [cb]) exc w =
     (case cb exc w of (exc1, w1) \<Rightarrow> ExitStack_close cbs exc1 w1)"
  by (subst ExitStack_close.simps) simp

lemma ExitStack_close_fold:
  "ExitStack_close cbs exc w = fold (\<lambda>cb (e, w). cb e w) (rev cbs) (exc, w)"
proof (induction cbs arbitrary: exc w rule: rev_induct)
  case Nil
  then show ?case by simp
next
  case (snoc cb cbs)
  then show ?case by (simp split: prod.splits)
qed

lemma ExitStack_close_logging:
  "ExitStack_close (map logging_teardown is) None w = (None, w @ map Teardown (rev is))"
proof (induction "is" arbitrary: w rule: rev_induct)
  case Nil
  then show ?case by simp
next
  case (snoc i "is")
  then show ?case by (simp add: logging_teardown_def)
qed

lemma get_instance_logging_resource:
  assumes "override_instances st i = None"
    and "map_of (providers st) i = Some \<lparr>obj = logging_resource i x, scope = sc\<rparr>"
    and "get_scoped_context sc st = Inr (Some ref)"
    and "dict_get (instances (read_context ref st)) i = PyNone"
  shows "get_instance (Suc n) i st =
           (Inr x, set_instance ref i x
              (push_exit ref (logging_teardown i) (st\<lparr>world := world st @ [Setup i]\<rparr>)))"
  using assms
  by (simp add: resolve_simps logging_resource_def logging_enter_def)

lemma resolve_all_logging:
  assumes "distinct is"
    and "\<forall>i\<in>set is. override_instances st i = None
           \<and> map_of (providers st) i = Some \<lparr>obj = logging_resource i (v i), scope = sc\<rparr>
           \<and> dict_get (instances (read_context ref st)) i = PyNone"
    and "get_scoped_context sc st = Inr (Some ref)"
  shows "fst (resolve_all (Suc n) is st) = Inr (map v is)
       \<and> stack (read_context ref (snd (resolve_all (Suc n) is st)))
           = stack (read_context ref st) @ map logging_teardown is
       \<and> world (snd (resolve_all (Suc n) is st)) = world st @ map Setup is"
  using assms
proof (induction "is" arbitrary: st)
  case Nil
  then show ?case by simp
next
  case (Cons i "is")
  let ?st1 = "set_instance ref i (v i)
              (push_exit ref (logging_teardown i) (st\<lparr>world := world st @ [Setup i]\<rparr>))"
  have step: "get_instance (Suc n) i st = (Inr (v i), ?st1)"
    using Cons.prems by (intro get_instance_logging_resource) simp_all
  have d: "distinct is" and ni: "i \<notin> set is" using Cons.prems(1) by simp_all
  have inv: "\<forall>j\<in>set is. override_instances ?st1 j = None
           \<and> map_of (providers ?st1) j = Some \<lparr>obj = logging_resource j (v j), scope = sc\<rparr>
           \<and> dict_get (instances (read_context ref ?st1)) j = PyNone"
    using Cons.prems(2) ni
    by (auto simp: set_instance_def push_exit_def dict_get_def)
  have ctx: "get_scoped_context sc ?st1 = Inr (Some ref)"
    using Cons.prems(3) by (simp add: set_instance_def push_exit_def)
  note ih = Cons.IH [OF d inv ctx]
  have s1: "stack (read_context ref ?st1) = stack (read_context ref st) @ [logging_teardown i]"
    by (simp add: set_instance_def push_exit_def)
  have w1: "world ?st1 = world st @ [Setup i]"
    by (simp add: set_instance_def push_exit_def)
  obtain r st2 where rest: "resolve_all (Suc n) is ?st1 = (r, st2)"
    by (cases "resolve_all (Suc n) is ?st1")
  from ih rest s1 w1 have "r = Inr (map v is)"
    and "stack (read_context ref st2)
           = stack (read_context ref st) @ logging_teardown i # map logging_teardown is"
    and "world st2 = world st @ Setup i # map Setup is"
    by simp_all
  with step rest show ?case by simp
qed

text \<open>
  Claim C4. Resource providers of one scope, resolved one after the other through
  \<open>get_instance\<close>, run their setups in that order, and closing the owning context runs
  their teardowns in the reverse order: for resources that record their setup and their
  teardown, for every list of distinct interfaces that are not cached yet, on a context
  whose exit stack is empty, the record after the close is the setups in resolution
  order followed by the teardowns in reverse order. \<open>ExitStack.close\<close> itself runs any
  stack of callbacks from the last one pushed to the first.
\<close>

theorem teardown_in_reverse_order:
  assumes "distinct is"
    and "\<forall>i\<in>set is. override_instances st i = None
           \<and> map_of (providers st) i = Some \<lparr>obj = logging_resource i (v i), scope = sc\<rparr>
           \<and> dict_get (instances (read_context ref st)) i = PyNone"
    and "get_scoped_context sc st = Inr (Some ref)"
    and "stack (read_context ref st) = []"
  shows "fst (resolve_all (Suc n) is st) = Inr (map v is)
       \<and> fst (ScopedContext_close ref (snd (resolve_all (Suc n) is st))) = Inr ()
       \<and> world (snd (ScopedContext_close ref (snd (resolve_all (Suc n) is st))))
           = world st @ map Setup is @ map Teardown (rev is)
       \<and> (\<forall>cbs exc w. ExitStack_close cbs exc w
              = fold (\<lambda>cb (e, w). cb e w) (rev cbs) (exc, w))"
proof -
  let ?st1 = "snd (resolve_all (Suc n) is st)"
  from resolve_all_logging [OF assms(1-3), of n] assms(4)
  have r: "fst (resolve_all (Suc n) is st) = Inr (map v is)"
    and s: "stack (read_context ref ?st1) = map logging_teardown is"
    and w: "world ?st1 = world st @ map Setup is"
    by simp_all
  have c: "fst (ScopedContext_close ref ?st1) = Inr ()"
    and cw: "world (snd (ScopedContext_close ref ?st1))
               = world st @ map Setup is @ map Teardown (rev is)"
    by (simp_all add: ScopedContext_close_def s w ExitStack_close_logging)
  from r c cw ExitStack_close_fold show ?thesis by blast
qed


lemma di_resources_eq:
  "sc = ''singleton'' \<or> sc = ''request'' \<Longrightarrow>
   di_resources sc =
     (PyxDI [])\<lparr>providers :=
       [(TypeKey 1, \<lparr>obj = logging_resource (TypeKey 1) (Ref 1), scope = sc\<rparr>),
        (TypeKey 2, \<lparr>obj = logging_resource (TypeKey 2) (Ref 2), scope = sc\<rparr>)]\<rparr>"
  by (auto simp: di_resources_def logging_resource_def register_defs)

theorem teardown_in_reverse_order_witness:
  "fst (resolve_all (Suc 0) [TypeKey 1, TypeKey 2] (di_resources ''singleton''))
     = Inr [Ref 1, Ref 2]
   \<and> fst (close (snd (resolve_all (Suc 0) [TypeKey 1, TypeKey 2] (di_resources ''singleton''))))
     = Inr ()
   \<and> world (snd (close (snd (resolve_all (Suc 0) [TypeKey 1, TypeKey 2]
        (di_resources ''singleton'')))))
     = [Setup (TypeKey 1), Setup (TypeKey 2), Teardown (TypeKey 2), Teardown (TypeKey 1)]"
proof -
  let ?st = "di_resources ''singleton''"
  let ?v = "\<lambda>i. if i = TypeKey 1 then Ref 1 else Ref 2"
  have d: "distinct [TypeKey 1, TypeKey 2]" by simp
  have h: "\<forall>i\<in>set [TypeKey 1, TypeKey 2]. override_instances ?st i = None
           \<and> map_of (providers ?st) i
               = Some \<lparr>obj = logging_resource i (?v i), scope = ''singleton''\<rparr>
           \<and> dict_get (instances (read_context SingletonRef ?st)) i = PyNone"
    by (simp add: di_resources_eq PyxDI_def new_context_def dict_get_def)
  have c: "get_scoped_context ''singleton'' ?st = Inr (Some SingletonRef)"
    by (simp add: get_scoped_context_def)
  have s: "stack (read_context SingletonRef ?st) = []"
    by (simp add: di_resources_eq PyxDI_def new_context_def)
  have w: "world ?st = []"
    by (simp add: di_resources_eq PyxDI_def)
  note t = teardown_in_reverse_order [OF d h c s, of 0]
  have r1: "fst (resolve_all (Suc 0) [TypeKey 1, TypeKey 2] ?st)
              = Inr (map ?v [TypeKey 1, TypeKey 2])"
    by (rule t [THEN conjunct1])
  have r2: "fst (ScopedContext_close SingletonRef
               (snd (resolve_all (Suc 0) [TypeKey 1, TypeKey 2] ?st))) = Inr ()"
    by (rule t [THEN conjunct2, THEN conjunct1])
  have r3: "world (snd (ScopedContext_close SingletonRef
               (snd (resolve_all (Suc 0) [TypeKey 1, TypeKey 2] ?st))))
              = world ?st @ map Setup [TypeKey 1, TypeKey 2]
                  @ map Teardown (rev [TypeKey 1, TypeKey 2])"
    by (rule t [THEN conjunct2, THEN conjunct2, THEN conjunct1])
  from r1 r2 r3 w show ?thesis by (simp add: close_def)
qed

end
